theory Spec2Isabelle
  imports Complex_Main "HOL-Library.Sublist" "HOL-Library.AList"
    "HOL-Library.Char_ord" "HOL-Library.List_Lexorder"
begin

section \<open>Python values used by the notebook\<close>

text \<open>
  The notebook \<^verbatim>\<open>02_deploy_and_monitor/deploy_and_monitor.ipynb\<close> is a sequence of cells.
  Each cell is embedded as a function of the values it reads; a raised exception is the
  \<open>Inl\<close> branch of the result.
\<close>

datatype py_error =
    Exception string
  | TypeError
  | IndexError
  | KeyError string
  | AttributeError
  | JSONDecodeError
  | ClientError string

text \<open>\<^verbatim>\<open>xs[i]\<close>: a negative index counts from the end, out of range raises.\<close>

definition py_index :: "'a list \<Rightarrow> int \<Rightarrow> py_error + 'a" where
  "py_index xs i =
     (if 0 \<le> i \<and> i < int (length xs) then Inr (xs ! nat i)
      else if i < 0 \<and> - int (length xs) \<le> i then Inr (xs ! nat (int (length xs) + i))
      else Inl IndexError)"

text \<open>\<^verbatim>\<open>s[:i]\<close>: a negative bound counts from the end, and the bound is clamped.\<close>

definition py_slice_to :: "'a list \<Rightarrow> int \<Rightarrow> 'a list" where
  "py_slice_to s i = (if i < 0 then take (nat (int (length s) + i)) s else take (nat i) s)"

text \<open>\<^verbatim>\<open>s.rfind(c)\<close> for a one-character \<open>c\<close>: the highest index of \<open>c\<close>, or \<open>-1\<close>.\<close>

definition rfind :: "string \<Rightarrow> char \<Rightarrow> int" where
  "rfind s c =
     (if c \<in> set s
      then int (length s) - 1 - int (length (takeWhile (\<lambda>x. x \<noteq> c) (rev s)))
      else - 1)"

text \<open>
  \<^verbatim>\<open>s.replace(old, new)\<close>: every non-overlapping occurrence of \<open>old\<close>, from the left.
  With an empty \<open>old\<close>, Python puts \<open>new\<close> before every character and at the end.
\<close>

function replace_occ :: "string \<Rightarrow> string \<Rightarrow> string \<Rightarrow> string" where
  "replace_occ old new [] = []"
| "replace_occ old new (c # cs) =
     (if old \<noteq> [] \<and> prefix old (c # cs)
      then new @ replace_occ old new (drop (length old) (c # cs))
      else c # replace_occ old new cs)"
  by pat_completeness auto
termination
  by (relation "measure (\<lambda>(old, new, s). length s)") (auto simp: neq_Nil_conv)

definition py_replace :: "string \<Rightarrow> string \<Rightarrow> string \<Rightarrow> string" where
  "py_replace s old new =
     (if old = [] then new @ concat (map (\<lambda>c. c # new) s) else replace_occ old new s)"

text \<open>\<^verbatim>\<open>s.split(c)\<close> for a one-character separator: \<open>n\<close> separators give \<open>n + 1\<close> fields.\<close>

fun py_split :: "char \<Rightarrow> string \<Rightarrow> string list" where
  "py_split c [] = [[]]"
| "py_split c (x # xs) =
     (if x = c then [] # py_split c xs
      else (case py_split c xs of [] \<Rightarrow> [[x]] | f # fs \<Rightarrow> (x # f) # fs))"

section \<open>Session variables\<close>

text \<open>
  \<^verbatim>\<open>prefix = 'aim362'\<close>. The bucket name comes from the platform session
  (\<^verbatim>\<open>sagemaker_session.default_bucket()\<close>) and is a parameter of every cell that uses it.
\<close>

definition prefix_name :: string where
  "prefix_name = ''aim362''"

section \<open>Endpoint deployment with data capture\<close>

record data_capture_config =
  enable_capture :: bool
  sampling_percentage :: int
  destination_s3_uri :: string

text \<open>\<^verbatim>\<open>'s3://{}/{}/monitoring/datacapture'.format(bucket_name, prefix)\<close>\<close>

definition s3_capture_upload_path :: "string \<Rightarrow> string" where
  "s3_capture_upload_path bucket_name =
     ''s3://'' @ bucket_name @ ''/'' @ prefix_name @ ''/monitoring/datacapture''"

text \<open>The capture configuration that the deployment cell passes to \<^verbatim>\<open>xgboost_model.deploy\<close>.\<close>

definition deploy_data_capture_config :: "string \<Rightarrow> data_capture_config" where
  "deploy_data_capture_config bucket_name =
     \<lparr>enable_capture = True,
      sampling_percentage = 100,
      destination_s3_uri = s3_capture_upload_path bucket_name\<rparr>"

section \<open>Listing the capture files\<close>

text \<open>
  The response of \<^verbatim>\<open>s3_client.list_objects\<close>: the key \<^verbatim>\<open>Contents\<close> is absent when no
  object matches the prefix, and \<^verbatim>\<open>result.get('Contents')\<close> is then \<^verbatim>\<open>None\<close>.
\<close>

record s3_object_summary =
  Key :: string

record list_objects_response =
  Contents :: "s3_object_summary list option"

text \<open>\<^verbatim>\<open>'s3://{0}/{1}'.format(bucket_name, capture_file.get("Key"))\<close>\<close>

definition s3_uri :: "string \<Rightarrow> s3_object_summary \<Rightarrow> string" where
  "s3_uri bucket_name capture_file = ''s3://'' @ bucket_name @ ''/'' @ Key capture_file"

text \<open>
  The list comprehension over \<^verbatim>\<open>result.get('Contents')\<close>. The platform call is outside any
  handler, so its error is the cell's error; iterating \<^verbatim>\<open>None\<close> raises \<^verbatim>\<open>TypeError\<close>.
\<close>

definition capture_files :: "string \<Rightarrow> py_error + list_objects_response \<Rightarrow> py_error + string list" where
  "capture_files bucket_name call =
     (case call of
        Inl e \<Rightarrow> Inl e
      | Inr result \<Rightarrow>
          (case Contents result of
             None \<Rightarrow> Inl TypeError
           | Some cs \<Rightarrow> Inr (map (s3_uri bucket_name) cs)))"

section \<open>Triggering the monitoring job manually\<close>

text \<open>
  \<^verbatim>\<open>capture_files[len(capture_files) - 1][: capture_files[len(capture_files) - 1].rfind('/')]\<close>
\<close>

definition data_capture_path :: "string list \<Rightarrow> py_error + string" where
  "data_capture_path files =
     (case py_index files (int (length files) - 1) of
        Inl e \<Rightarrow> Inl e
      | Inr f \<Rightarrow> Inr (py_slice_to f (rfind f CHR ''/'')))"

text \<open>
  The arguments of the call \<^verbatim>\<open>run_model_monitor_job_processor(region, 'ml.m5.xlarge', role,
  data_capture_path, statistics_path, constraints_path, reports_path,
  postprocessor_path=postprocessor_path)\<close>, as far as they are paths.
\<close>

record monitor_job_args =
  job_data_capture_path :: string
  job_statistics_path :: string
  job_constraints_path :: string
  job_reports_path :: string
  job_postprocessor_path :: string

definition baseline_results_path :: "string \<Rightarrow> string" where
  "baseline_results_path bucket_name =
     ''s3://'' @ bucket_name @ ''/'' @ prefix_name @ ''/monitoring/baselining/results''"

definition reports_path :: "string \<Rightarrow> string" where
  "reports_path bucket_name = ''s3://'' @ bucket_name @ ''/'' @ prefix_name @ ''/monitoring/reports''"

definition postprocessor_path :: "string \<Rightarrow> string" where
  "postprocessor_path bucket_name =
     ''s3://'' @ bucket_name @ ''/'' @ prefix_name @ ''/monitoring/code/postprocessor.py''"

definition manual_trigger_args ::
  "string \<Rightarrow> py_error + list_objects_response \<Rightarrow> py_error + monitor_job_args" where
  "manual_trigger_args bucket_name call =
     (case capture_files bucket_name call of
        Inl e \<Rightarrow> Inl e
      | Inr files \<Rightarrow>
          (case data_capture_path files of
             Inl e \<Rightarrow> Inl e
           | Inr p \<Rightarrow>
               Inr \<lparr>job_data_capture_path = p,
                    job_statistics_path = baseline_results_path bucket_name @ ''/statistics.json'',
                    job_constraints_path = baseline_results_path bucket_name @ ''/constraints.json'',
                    job_reports_path = reports_path bucket_name,
                    job_postprocessor_path = postprocessor_path bucket_name\<rparr>))"

text \<open>\<^verbatim>\<open>sep.join(xs)\<close>\<close>

fun py_join :: "string \<Rightarrow> string list \<Rightarrow> string" where
  "py_join sep [] = []"
| "py_join sep [x] = x"
| "py_join sep (x # y # ys) = x @ sep @ py_join sep (y # ys)"

section \<open>Artifact Locator\<close>

datatype training_job_status = InProgress | Completed | Failed | Stopping | Stopped

record training_job =
  TrainingJobName :: string
  TrainingJobStatus :: training_job_status
  CreationTime :: int
  S3ModelArtifacts :: string

datatype sort_order = Ascending | Descending

text \<open>
  Modelled from the spec: the platform call \<^verbatim>\<open>client.list_training_jobs\<close> is a service outside
  the sources. Following the spec (``queries the platform for completed jobs matching the
  prefix, sorted by creation time''), it answers a request \<^verbatim>\<open>NameContains\<close>,
  \<^verbatim>\<open>SortBy='CreationTime'\<close>, \<^verbatim>\<open>SortOrder\<close>, \<^verbatim>\<open>StatusEquals\<close> over the jobs the platform holds
  with the jobs of that status whose name contains the string, ordered by creation time in
  the requested direction. One call returns one page, of at most \<open>page_size\<close> summaries; the
  notebook sets no \<^verbatim>\<open>MaxResults\<close> and reads no further page.
\<close>

definition page_size :: nat where
  "page_size = 10"

definition list_training_jobs ::
  "training_job list \<Rightarrow> string \<Rightarrow> sort_order \<Rightarrow> training_job_status \<Rightarrow> training_job list" where
  "list_training_jobs jobs NameContains SortOrder StatusEquals =
     (let matching =
            filter (\<lambda>j. TrainingJobStatus j = StatusEquals \<and> sublist NameContains (TrainingJobName j))
              jobs
      in take page_size
           (case SortOrder of
              Ascending \<Rightarrow> sort_key CreationTime matching
            | Descending \<Rightarrow> sort_key (\<lambda>j. - CreationTime j) matching))"

definition get_latest_training_job_name :: "training_job list \<Rightarrow> string \<Rightarrow> py_error + string" where
  "get_latest_training_job_name jobs base_job_name =
     (let response = list_training_jobs jobs base_job_name Descending Completed
      in if length response > 0
         then Inr (TrainingJobName (response ! 0))
         else Inl (Exception ''Training job not found.''))"

text \<open>
  Modelled from the spec: \<^verbatim>\<open>client.describe_training_job\<close> is the platform's lookup of a job by
  its name; it fails when the platform holds no job of that name.
\<close>

definition describe_training_job :: "training_job list \<Rightarrow> string \<Rightarrow> py_error + training_job" where
  "describe_training_job jobs job_name =
     (case find (\<lambda>j. TrainingJobName j = job_name) jobs of
        None \<Rightarrow> Inl (ClientError ''Requested resource not found.'')
      | Some j \<Rightarrow> Inr j)"

definition get_training_job_s3_model_artifacts :: "training_job list \<Rightarrow> string \<Rightarrow> py_error + string" where
  "get_training_job_s3_model_artifacts jobs job_name =
     (case describe_training_job jobs job_name of
        Inl e \<Rightarrow> Inl e
      | Inr response \<Rightarrow> Inr (S3ModelArtifacts response))"

text \<open>The two calls of the cell, with the name prefix it passes.\<close>

definition model_path :: "training_job list \<Rightarrow> string \<Rightarrow> py_error + string" where
  "model_path jobs base_job_name =
     (case get_latest_training_job_name jobs base_job_name of
        Inl e \<Rightarrow> Inl e
      | Inr latest_training_job_name \<Rightarrow>
          get_training_job_s3_model_artifacts jobs latest_training_job_name)"

section \<open>Inference requests\<close>

text \<open>The two rows of the inference cell (``Expecting class 4'' and ``Expecting class 7'').\<close>

definition test_values_class4 :: string where
  "test_values_class4 =
     ''80,1056736,3,4,20,964,20,0,6.666666667,11.54700538,964,0,241.0,482.0,931.1691850'' @
     ''999999,6.6241710320000005,176122.6667,431204.4454,1056315,2,394,197.0,275.771644'' @
     ''69999997,392,2,1056733,352244.3333,609743.1115,1056315,24,0,0,0,0,72,92,2.838930'' @
     ''4419999997,3.78524059,0,964,123.0,339.8873763,115523.4286,0,0,1,1,0,0,0,1,1.0,14'' @
     ''0.5714286,6.666666667,241.0,0.0,0.0,0.0,0.0,0.0,0.0,3,20,4,964,8192,211,1,20,0.0'' @
     '',0.0,0,0,0.0,0.0,0,0,20,2,2018,1,0,1,0''"

definition test_values_class7 :: string where
  "test_values_class7 =
     ''80,10151,2,0,0,0,0,0,0.0,0.0,0,0,0.0,0.0,0.0,197.0249237,10151.0,0.0,10151,10151'' @
     '',10151,10151.0,0.0,10151,10151,0,0.0,0.0,0,0,0,0,0,0,40,0,197.0249237,0.0,0,0,0.'' @
     ''0,0.0,0.0,0,0,0,0,1,0,0,0,0.0,0.0,0.0,0.0,0.0,0.0,0.0,0.0,0.0,0.0,2,0,0,0,32738,'' @
     ''-1,0,20,0.0,0.0,0,0,0.0,0.0,0,0,21,2,2018,2,0,1,0''"

text \<open>
  \<^verbatim>\<open>artificial_values.format(str(dist_values[i]))\<close>: the row of the violation generator, where
  \<open>v\<close> is the text of the sampled number that replaces \<^verbatim>\<open>{0}\<close>.
\<close>

definition artificial_values :: "string \<Rightarrow> string" where
  "artificial_values v =
     ''22,,40.3,0,0,0,0,0,'' @ v @
     '',0.0,0,0,0.0,0.0,0.0,0.0368169318,54322832.0,0.0,54322832,54322832,54322832,5432'' @
     ''2832.0,0.0,54322832,54322832,0,0.0,0.0,0,0,0,0,0,0,40,0,0.0368169318,0.0,0,0,0.0'' @
     '',0.0,0.0,0,0,0,0,1,0,0,0,0.0,0.0,0.0,0.0,0.0,0.0,0.0,0.0,0.0,0.0,2,0,0,0,279,-1,'' @
     ''0,20,0.0,0.0,0,0,0.0,0.0,0,0,23,2,2018,4,0,1,0''"

text \<open>
  A field is a decimal number when it is an optional minus sign, at least one digit and an
  optional fraction part.
\<close>

definition is_digit :: "char \<Rightarrow> bool" where
  "is_digit c = (c \<in> set ''0123456789'')"

definition is_numeric :: "string \<Rightarrow> bool" where
  "is_numeric s =
     (let u = (case s of [] \<Rightarrow> [] | c # r \<Rightarrow> if c = CHR ''-'' then r else s);
          whole = takeWhile is_digit u;
          rest = dropWhile is_digit u
      in whole \<noteq> [] \<and>
         (case rest of [] \<Rightarrow> True | d # decimals \<Rightarrow> d = CHR ''.'' \<and> list_all is_digit decimals))"

section \<open>JSON values\<close>

datatype json =
    JNull
  | JBool bool
  | JInt int
  | JFloat rat
  | JStr string
  | JArr "json list"
  | JObj "(string \<times> json) list"

definition is_array :: "json \<Rightarrow> bool" where
  "is_array j = (case j of JArr xs \<Rightarrow> True | _ \<Rightarrow> False)"

definition is_object :: "json \<Rightarrow> bool" where
  "is_object j = (case j of JObj kvs \<Rightarrow> True | _ \<Rightarrow> False)"

section \<open>Inference Client\<close>

text \<open>
  Modelled from the spec: the entrypoint \<^verbatim>\<open>source_dir/deploy_xgboost.py\<close> is not among the
  sources. The spec gives it four duties: deserializing the model, decoding the request,
  running prediction, and ``encoding the response as a scalar rather than the container's
  default array encoding''; the notebook adds that ``for class 3 the XGB container would
  output [3.] but we want to extract only the 3 value''. The trained model is a parameter
  \<open>booster\<close>, which gives a class to a decoded row. The response body is represented by the
  JSON value it encodes.
\<close>

type_synonym booster = "string list \<Rightarrow> int"

definition input_fn :: "string \<Rightarrow> string list" where
  "input_fn request_body = py_split CHR '','' request_body"

definition predict_fn :: "string list \<Rightarrow> booster \<Rightarrow> int" where
  "predict_fn input_object model = model input_object"

definition default_output :: "int \<Rightarrow> json" where
  "default_output prediction = JArr [JFloat (of_int prediction)]"

definition output_fn :: "int \<Rightarrow> json" where
  "output_fn prediction = JInt prediction"

definition invoke_endpoint :: "booster \<Rightarrow> string \<Rightarrow> json" where
  "invoke_endpoint model request_body = output_fn (predict_fn (input_fn request_body) model)"

text \<open>
  \<^verbatim>\<open>pred.predict(data)\<close> with \<^verbatim>\<open>pred.serializer = CSVSerializer()\<close>, which sends a string as it
  is, and \<^verbatim>\<open>pred.deserializer = JSONDeserializer()\<close>, which returns the JSON value of the
  response body.
\<close>

definition pred_predict :: "booster \<Rightarrow> string \<Rightarrow> json" where
  "pred_predict model data = invoke_endpoint model data"

section \<open>Baseline data preparation\<close>

text \<open>
  A bucket holds objects by key. \<^verbatim>\<open>bucket.objects.filter(Prefix=p)\<close> lists the keys that start
  with \<open>p\<close>, each once, in the order of the keys (the byte order of their characters, a
  proper prefix first), which is the order on strings used here. A copy reads the source
  object and stores it under the target key, replacing what was there.
\<close>

type_synonym 'a bucket = "(string \<times> 'a) list"

definition bucket_key_prefix :: string where
  "bucket_key_prefix = ''aim362/data/val/''"


definition target_key :: "string \<Rightarrow> string" where
  "target_key key =
     py_replace (py_replace key ''data/val/'' ''monitoring/baselining/data/'') ''.part'' ''.csv''"

definition bucket_copy :: "'a bucket \<Rightarrow> string \<Rightarrow> string \<Rightarrow> py_error + 'a bucket" where
  "bucket_copy b source_key dest_key =
     (case map_of b source_key of
        None \<Rightarrow> Inl (ClientError ''Not Found'')
      | Some obj \<Rightarrow> Inr (AList.update dest_key obj b))"

text \<open>The \<^verbatim>\<open>for s3_object in ...\<close> loop over the listed keys.\<close>

fun copy_loop :: "'a bucket \<Rightarrow> string list \<Rightarrow> py_error + 'a bucket" where
  "copy_loop b [] = Inr b"
| "copy_loop b (key # keys) =
     (case bucket_copy b key (target_key key) of
        Inl e \<Rightarrow> Inl e
      | Inr b' \<Rightarrow> copy_loop b' keys)"


section \<open>Report Reader\<close>

text \<open>
  The cell that lists the monitoring reports. Its result is what it prints and, when the
  assignment is reached, the value of \<^verbatim>\<open>monitoring_reports\<close>. The listing call stands before
  the \<^verbatim>\<open>try\<close>; the bare \<^verbatim>\<open>except\<close> catches whatever the comprehension raises.
\<close>

definition monitoring_reports ::
  "string \<Rightarrow> py_error + list_objects_response \<Rightarrow> py_error + (string list \<times> string list option)" where
  "monitoring_reports bucket_name call =
     (case call of
        Inl e \<Rightarrow> Inl e
      | Inr result \<Rightarrow>
          (case Contents result of
             None \<Rightarrow> Inr ([''No monitoring reports found.''], None)
           | Some cs \<Rightarrow>
               (let files = map (s3_uri bucket_name) cs
                in Inr ([''Monitoring Reports Files: '', py_join [CHR 0x0A, CHR '' ''] files],
                        Some files))))"

text \<open>\<^verbatim>\<open>d[key]\<close> on a parsed JSON value: only an object can be indexed by a string.\<close>

definition py_getitem :: "json \<Rightarrow> string \<Rightarrow> py_error + json" where
  "py_getitem d key =
     (case d of
        JObj kvs \<Rightarrow> (case map_of kvs key of None \<Rightarrow> Inl (KeyError key) | Some v \<Rightarrow> Inr v)
      | _ \<Rightarrow> Inl TypeError)"

text \<open>
  \<^verbatim>\<open>pd.io.json.json_normalize\<close> is a library call: a list of objects becomes a table with one
  row for each object, in order; an empty list becomes the empty table; a single object
  becomes a table of one row; anything else is refused. A row is kept as the fields of its
  object.
\<close>

type_synonym data_frame = "(string \<times> json) list list"

fun json_row :: "json \<Rightarrow> py_error + (string \<times> json) list" where
  "json_row (JObj kvs) = Inr kvs"
| "json_row _ = Inl AttributeError"

fun json_rows :: "json list \<Rightarrow> py_error + data_frame" where
  "json_rows [] = Inr []"
| "json_rows (x # xs) =
     (case json_row x of
        Inl e \<Rightarrow> Inl e
      | Inr r \<Rightarrow> (case json_rows xs of Inl e \<Rightarrow> Inl e | Inr rs \<Rightarrow> Inr (r # rs)))"

definition json_normalize :: "json \<Rightarrow> py_error + data_frame" where
  "json_normalize data =
     (case data of
        JArr xs \<Rightarrow> json_rows xs
      | JObj kvs \<Rightarrow> Inr [kvs]
      | _ \<Rightarrow> Inl TypeError)"

text \<open>
  \<^verbatim>\<open>violations_df = pd.io.json.json_normalize(json.loads(data)['violations'])\<close>. The parser
  \<^verbatim>\<open>json.loads\<close> is a parameter: it returns the parsed value or raises.
\<close>

definition violations_df :: "(string \<Rightarrow> py_error + json) \<Rightarrow> string \<Rightarrow> py_error + data_frame" where
  "violations_df json_loads data =
     (case json_loads data of
        Inl e \<Rightarrow> Inl e
      | Inr doc \<Rightarrow>
          (case py_getitem doc ''violations'' of
             Inl e \<Rightarrow> Inl e
           | Inr violations \<Rightarrow> json_normalize violations))"

section \<open>The cells of the notebook and their control flow\<close>

text \<open>
  The statements of a code cell run in order. A Python statement either completes or raises;
  a raised exception ends the cell unless a handler of the cell catches it. A line that
  starts with \<open>!\<close> hands a command to the shell: the cell goes on with its next line whether
  or not the command succeeds. The only handler in the notebook is a \<^verbatim>\<open>try\<close> with a bare
  \<^verbatim>\<open>except\<close>, so a \<open>Try\<close> holds the statements of its body and of its handler.
  A statement is named by the first line of its source text, with quotation marks written as
  backquotes and a newline escape as \<open><LF>\<close>, cut after 63 characters (then ending in
  three dots).
\<close>

datatype stmt =
    Py string
  | Shell string
  | Try "string list" "string list"

text \<open>
  What happens when the statements run is given from outside: \<open>w k\<close> is the exception that
  the \<open>k\<close>-th statement executed in the cell raises (for a shell line: the failure of its
  command), or \<open>None\<close> when it completes. A run returns the statements executed, in order,
  the exception that ended it, if any, and the number of statements executed so far.
\<close>

type_synonym world = "nat \<Rightarrow> py_error option"

fun run_block :: "world \<Rightarrow> nat \<Rightarrow> string list \<Rightarrow> string list \<times> py_error option \<times> nat" where
  "run_block w i [] = ([], None, i)"
| "run_block w i (s # ss) =
     (case w i of
        Some e \<Rightarrow> ([s], Some e, Suc i)
      | None \<Rightarrow> (case run_block w (Suc i) ss of (t, r, j) \<Rightarrow> (s # t, r, j)))"

fun run_stmt :: "world \<Rightarrow> nat \<Rightarrow> stmt \<Rightarrow> string list \<times> py_error option \<times> nat" where
  "run_stmt w i (Py s) = ([s], w i, Suc i)"
| "run_stmt w i (Shell s) = ([s], None, Suc i)"
| "run_stmt w i (Try body handler) =
     (case run_block w i body of
        (t, None, j) \<Rightarrow> (t, None, j)
      | (t, Some e, j) \<Rightarrow> (case run_block w j handler of (t', r, k) \<Rightarrow> (t @ t', r, k)))"

fun run_stmts :: "world \<Rightarrow> nat \<Rightarrow> stmt list \<Rightarrow> string list \<times> py_error option \<times> nat" where
  "run_stmts w i [] = ([], None, i)"
| "run_stmts w i (st # sts) =
     (case run_stmt w i st of
        (t, Some e, j) \<Rightarrow> (t, Some e, j)
      | (t, None, j) \<Rightarrow> (case run_stmts w j sts of (t', r, k) \<Rightarrow> (t @ t', r, k)))"

definition run_cell :: "world \<Rightarrow> stmt list \<Rightarrow> string list \<times> py_error option" where
  "run_cell w cell = (case run_stmts w 0 cell of (t, r, k) \<Rightarrow> (t, r))"

fun is_py :: "stmt \<Rightarrow> bool" where
  "is_py (Py s) = True"
| "is_py (Shell s) = False"
| "is_py (Try body handler) = False"

fun stmt_text :: "stmt \<Rightarrow> string" where
  "stmt_text (Py s) = s"
| "stmt_text (Shell s) = s"
| "stmt_text (Try body handler) = ''try:''"

text \<open>
  The code cells, in the notebook's order, each as its top-level statements. A \<^verbatim>\<open>for\<close> loop is
  its header followed by its body once for each iteration; the loop over the listed objects
  runs \<open>n\<close> times, \<open>n\<close> being the number of objects under the prefix. A \<^verbatim>\<open>with\<close> statement is
  its header followed by its body; a \<^verbatim>\<open>def\<close> and an \<^verbatim>\<open>if\<close> are one statement each.
\<close>

definition cell_session :: "stmt list" where
  "cell_session =
     [Py ''import os'',
      Py ''import boto3'',
      Py ''import sagemaker'',
      Py ''region = boto3.Session().region_name'',
      Py ''role = sagemaker.get_execution_role()'',
      Py ''sagemaker_session = sagemaker.Session()'',
      Py ''bucket_name = sagemaker_session.default_bucket()'',
      Py ''prefix = `aim362`'',
      Py ''print(region)'',
      Py ''print(role)'',
      Py ''print(bucket_name)'']"

definition cell_locate_artifact :: "stmt list" where
  "cell_locate_artifact =
     [Py ''import boto3'',
      Py ''def get_latest_training_job_name(base_job_name):'',
      Py ''def get_training_job_s3_model_artifacts(job_name):'',
      Py ''latest_training_job_name = get_latest_training_job_name(`nw-tra...'',
      Py ''print(latest_training_job_name)'',
      Py ''model_path = get_training_job_s3_model_artifacts(latest_trainin...'',
      Py ''print(model_path)'']"

definition cell_show_entrypoint :: "stmt list" where
  "cell_show_entrypoint =
     [Shell ''!pygmentize source_dir/deploy_xgboost.py'']"

definition cell_create_model :: "stmt list" where
  "cell_create_model =
     [Py ''from time import gmtime, strftime'',
      Py ''from sagemaker.xgboost import XGBoostModel'',
      Py ''model_name = `nw-traffic-classification-xgb-model-` + strftime(...'',
      Py ''code_location = `s3://{0}/{1}/code`.format(bucket_name, prefix)'',
      Py ''xgboost_model = XGBoostModel(model_data=model_path,'']"

definition cell_deploy :: "stmt list" where
  "cell_deploy =
     [Py ''from time import gmtime, strftime'',
      Py ''from sagemaker.model_monitor import DataCaptureConfig'',
      Py ''s3_capture_upload_path = `s3://{}/{}/monitoring/datacapture`.fo...'',
      Py ''print(s3_capture_upload_path)'',
      Py ''endpoint_name = `nw-traffic-classification-xgb-ep-` + strftime(...'',
      Py ''print(endpoint_name)'',
      Py ''pred = xgboost_model.deploy(initial_instance_count=1,'']"

definition cell_invoke :: "stmt list" where
  "cell_invoke =
     [Py ''from sagemaker.deserializers import JSONDeserializer'',
      Py ''from sagemaker.serializers import CSVSerializer'',
      Py ''from sagemaker.predictor import RealTimePredictor'',
      Py ''pred.serializer = CSVSerializer()'',
      Py ''pred.deserializer = JSONDeserializer()'',
      Py ''test_values = `80,1056736,3,4,20,964,20,0,6.666666667,11.547005...'',
      Py ''result = pred.predict(test_values)'',
      Py ''print(result)'',
      Py ''test_values = `80,10151,2,0,0,0,0,0,0.0,0.0,0,0,0.0,0.0,0.0,197...'',
      Py ''result = pred.predict(test_values)'',
      Py ''print(result)'']"

definition cell_list_capture :: "stmt list" where
  "cell_list_capture =
     [Py ''s3_client = boto3.Session().client(`s3`)'',
      Py ''current_endpoint_capture_prefix = `{}/monitoring/datacapture/{}...'',
      Py ''result = s3_client.list_objects(Bucket=bucket_name, Prefix=curr...'',
      Py ''capture_files = [`s3://{0}/{1}`.format(bucket_name, capture_fil...'',
      Py ''print(`Capture Files: `)'',
      Py ''print(`<LF> `.join(capture_files))'']"

definition cell_copy_capture_example :: "stmt list" where
  "cell_copy_capture_example =
     [Shell ''!aws s3 cp {capture_files[0]} datacapture/captured_data_example...'',
      Shell ''!head datacapture/captured_data_example.jsonl'']"

definition cell_print_capture_record :: "stmt list" where
  "cell_print_capture_record =
     [Py ''import json'',
      Py ''with open (`datacapture/captured_data_example.jsonl`, `r`) as m...'',
      Py ''data=myfile.read()'',
      Py ''print(json.dumps(json.loads(data.split(`<LF>`)[0]), indent=2))'']"

definition cell_copy_baseline_data :: "nat \<Rightarrow> stmt list" where
  "cell_copy_baseline_data n =
     [Py ''import boto3'',
      Py ''s3 = boto3.resource(`s3`)'',
      Py ''bucket_key_prefix = `aim362/data/val/`'',
      Py ''bucket = s3.Bucket(bucket_name)'',
      Py ''for s3_object in bucket.objects.filter(Prefix=bucket_key_prefix):''] @
     concat (replicate n
       [Py ''target_key = s3_object.key.replace(`data/val/`, `monitoring/bas...'',
        Py ''print(`Copying {0} to {1} ...`.format(s3_object.key, target_key))'',
        Py ''copy_source = {'',
        Py ''s3.Bucket(bucket_name).copy(copy_source, target_key)''])"

definition cell_baseline_paths :: "stmt list" where
  "cell_baseline_paths =
     [Py ''baseline_data_path = `s3://{0}/{1}/monitoring/baselining/data`....'',
      Py ''baseline_results_path = `s3://{0}/{1}/monitoring/baselining/res...'',
      Py ''print(baseline_data_path)'',
      Py ''print(baseline_results_path)'']"

definition cell_create_monitor :: "stmt list" where
  "cell_create_monitor =
     [Py ''from sagemaker.model_monitor import DefaultModelMonitor'',
      Py ''from sagemaker.model_monitor.dataset_format import DatasetFormat'',
      Py ''my_default_monitor = DefaultModelMonitor('']"

definition cell_suggest_baseline :: "stmt list" where
  "cell_suggest_baseline =
     [Py ''my_default_monitor.suggest_baseline('']"

definition cell_show_statistics :: "stmt list" where
  "cell_show_statistics =
     [Py ''import pandas as pd'',
      Py ''baseline_job = my_default_monitor.latest_baselining_job'',
      Py ''schema_df = pd.io.json.json_normalize(baseline_job.baseline_sta...'',
      Py ''schema_df.head(10)'']"

definition cell_show_constraints :: "stmt list" where
  "cell_show_constraints =
     [Py ''constraints_df = pd.io.json.json_normalize(baseline_job.suggest...'',
      Py ''constraints_df.head(10)'']"

definition cell_generate_violations :: "stmt list" where
  "cell_generate_violations =
     [Py ''import time'',
      Py ''import numpy as np'',
      Py ''dist_values = np.random.normal(1, 0.2, 1000)'',
      Py ''artificial_values = `22,,40.3,0,0,0,0,0,{0},0.0,0,0,0.0,0.0,0.0...'',
      Py ''for i in range(1000):''] @
     concat (replicate 1000
       [Py ''pred.predict(artificial_values.format(str(dist_values[i])))'',
        Py ''time.sleep(0.15)'',
        Py ''if i > 0 and i % 100 == 0 :''])"

definition cell_show_postprocessor :: "stmt list" where
  "cell_show_postprocessor =
     [Shell ''!pygmentize postprocessor.py'']"

definition cell_upload_postprocessor :: "stmt list" where
  "cell_upload_postprocessor =
     [Py ''import boto3'',
      Py ''monitoring_code_prefix = `{0}/monitoring/code`.format(prefix)'',
      Py ''print(monitoring_code_prefix)'',
      Py ''boto3.Session().resource(`s3`).Bucket(bucket_name).Object(monit...'',
      Py ''postprocessor_path = `s3://{0}/{1}/monitoring/code/postprocesso...'',
      Py ''print(postprocessor_path)'',
      Py ''reports_path = `s3://{0}/{1}/monitoring/reports`.format(bucket_...'',
      Py ''print(reports_path)'']"

definition cell_create_schedule :: "stmt list" where
  "cell_create_schedule =
     [Py ''from sagemaker.model_monitor import CronExpressionGenerator'',
      Py ''from time import gmtime, strftime'',
      Py ''endpoint_name = pred.endpoint_name'',
      Py ''mon_schedule_name = `nw-traffic-classification-xgb-mon-sch-` + ...'',
      Py ''my_default_monitor.create_monitoring_schedule('']"

definition cell_describe_schedule :: "stmt list" where
  "cell_describe_schedule =
     [Py ''desc_schedule_result = my_default_monitor.describe_schedule()'',
      Py ''desc_schedule_result'']"

definition cell_delete_schedule :: "stmt list" where
  "cell_delete_schedule =
     [Py ''my_default_monitor.delete_monitoring_schedule()'']"

definition cell_manual_trigger_paths :: "stmt list" where
  "cell_manual_trigger_paths =
     [Py ''result = s3_client.list_objects(Bucket=bucket_name, Prefix=curr...'',
      Py ''capture_files = [`s3://{0}/{1}`.format(bucket_name, capture_fil...'',
      Py ''print(`Capture Files: `)'',
      Py ''print(`<LF> `.join(capture_files))'',
      Py ''data_capture_path = capture_files[len(capture_files) - 1][: cap...'',
      Py ''statistics_path = baseline_results_path + `/statistics.json`'',
      Py ''constraints_path = baseline_results_path + `/constraints.json`'',
      Py ''print(data_capture_path)'',
      Py ''print(postprocessor_path)'',
      Py ''print(statistics_path)'',
      Py ''print(constraints_path)'',
      Py ''print(reports_path)'']"

definition cell_run_monitor_job :: "stmt list" where
  "cell_run_monitor_job =
     [Py ''from monitoringjob_utils import run_model_monitor_job_processor'',
      Py ''run_model_monitor_job_processor(region, `ml.m5.xlarge`, role, d...'']"

definition cell_list_reports :: "stmt list" where
  "cell_list_reports =
     [Py ''s3_client = boto3.Session().client(`s3`)'',
      Py ''monitoring_reports_prefix = `{}/monitoring/reports/{}`.format(p...'',
      Py ''result = s3_client.list_objects(Bucket=bucket_name, Prefix=moni...'',
      Try
        [''monitoring_reports = [`s3://{0}/{1}`.format(bucket_name, captur...'',
         ''print(`Monitoring Reports Files: `)'',
         ''print(`<LF> `.join(monitoring_reports))'']
        [''print(`No monitoring reports found.`)'']]"

definition cell_copy_reports :: "stmt list" where
  "cell_copy_reports =
     [Shell ''!aws s3 cp {monitoring_reports[0]} monitoring/'',
      Shell ''!aws s3 cp {monitoring_reports[1]} monitoring/'',
      Shell ''!aws s3 cp {monitoring_reports[2]} monitoring/'']"

definition cell_read_violations :: "stmt list" where
  "cell_read_violations =
     [Py ''import pandas as pd'',
      Py ''pd.set_option(`display.max_colwidth`, -1)'',
      Py ''file = open(`monitoring/constraint_violations.json`, `r`)'',
      Py ''data = file.read()'',
      Py ''violations_df = pd.io.json.json_normalize(json.loads(data)[`vio...'',
      Py ''violations_df.head(10)'']"

definition cell_copy_baseline_files :: "stmt list" where
  "cell_copy_baseline_files =
     [Shell ''!aws s3 cp {statistics_path} baseline/'',
      Shell ''!aws s3 cp {constraints_path} baseline/'']"

definition cell_print_monitoring_config :: "stmt list" where
  "cell_print_monitoring_config =
     [Py ''import json'',
      Py ''with open (`baseline/constraints.json`, `r`) as myfile:'',
      Py ''data=myfile.read()'',
      Py ''print(json.dumps(json.loads(data)[`monitoring_config`], indent=2))'']"

definition cell_delete_endpoint :: "stmt list" where
  "cell_delete_endpoint =
     [Py ''pred.delete_endpoint()'',
      Py ''pred.delete_model()'']"

definition notebook :: "nat \<Rightarrow> stmt list list" where
  "notebook n =
     [cell_session,
      cell_locate_artifact,
      cell_show_entrypoint,
      cell_create_model,
      cell_deploy,
      cell_invoke,
      cell_list_capture,
      cell_copy_capture_example,
      cell_print_capture_record,
      cell_copy_baseline_data n,
      cell_baseline_paths,
      cell_create_monitor,
      cell_suggest_baseline,
      cell_show_statistics,
      cell_show_constraints,
      cell_generate_violations,
      cell_show_postprocessor,
      cell_upload_postprocessor,
      cell_create_schedule,
      cell_describe_schedule,
      cell_delete_schedule,
      cell_manual_trigger_paths,
      cell_run_monitor_job,
      cell_list_reports,
      cell_copy_reports,
      cell_read_violations,
      cell_copy_baseline_files,
      cell_print_monitoring_config,
      cell_delete_endpoint]"

section \<open>Properties\<close>

subsection \<open>Python string helpers\<close>

lemma rfind_last_sep:
  assumes "c \<notin> set b"
  shows "rfind (d @ c # b) c = int (length d)"
proof -
  have "takeWhile (\<lambda>x. x \<noteq> c) (rev b @ c # rev d) = rev b"
    using assms by (subst takeWhile_append2) auto
  then show ?thesis
    by (simp add: rfind_def)
qed

lemma data_capture_path_snoc:
  "data_capture_path (fs @ [f]) = Inr (py_slice_to f (rfind f CHR ''/''))"
  by (simp add: data_capture_path_def py_index_def)

lemma s3_uri_cut:
  "\<exists>d b. s3_uri bucket_name obj = d @ CHR ''/'' # b \<and> CHR ''/'' \<notin> set b
     \<and> py_slice_to (s3_uri bucket_name obj) (rfind (s3_uri bucket_name obj) CHR ''/'') = d"
proof -
  have "CHR ''/'' \<in> set (s3_uri bucket_name obj)"
    by (simp add: s3_uri_def)
  then obtain d b where db: "s3_uri bucket_name obj = d @ CHR ''/'' # b" "CHR ''/'' \<notin> set b"
    by (rule split_list_last [THEN exE]) blast
  have "rfind (d @ CHR ''/'' # b) CHR ''/'' = int (length d)"
    using db(2) by (rule rfind_last_sep)
  then have "py_slice_to (d @ CHR ''/'' # b) (rfind (d @ CHR ''/'' # b) CHR ''/'') = d"
    by (simp add: py_slice_to_def)
  then have "py_slice_to (s3_uri bucket_name obj) (rfind (s3_uri bucket_name obj) CHR ''/'') = d"
    by (simp only: db(1))
  with db show ?thesis by blast
qed

subsection \<open>Endpoint Deployer\<close>

text \<open>
  C5. The capture configuration that the deployment cell passes to endpoint creation has a
  sampling percentage between 0 and 100, and since capture is enabled its destination is
  not the empty string, whatever the session's bucket name is.
\<close>

theorem capture_config_valid:
  "0 \<le> sampling_percentage (deploy_data_capture_config bucket_name)
   \<and> sampling_percentage (deploy_data_capture_config bucket_name) \<le> 100
   \<and> (enable_capture (deploy_data_capture_config bucket_name)
        \<longrightarrow> destination_s3_uri (deploy_data_capture_config bucket_name) \<noteq> [])"
  by (simp add: deploy_data_capture_config_def s3_capture_upload_path_def)

theorem capture_config_valid_witness:
  "enable_capture (deploy_data_capture_config ''sagemaker-eu-west-1-123456789012'')
   \<and> destination_s3_uri (deploy_data_capture_config ''sagemaker-eu-west-1-123456789012'')
       = ''s3://sagemaker-eu-west-1-123456789012/aim362/monitoring/datacapture''
   \<and> destination_s3_uri (deploy_data_capture_config ''sagemaker-eu-west-1-123456789012'') \<noteq> []"
  using capture_config_valid [of "''sagemaker-eu-west-1-123456789012''"]
  by (simp add: deploy_data_capture_config_def s3_capture_upload_path_def prefix_name_def)

subsection \<open>Manual Trigger: which captured data the job is given\<close>

text \<open>
  C10. When the listing returns at least one capture file, the captured-data path among the
  arguments of the manually triggered job is the URI of the last listed file cut at its
  last \<open>/\<close>: it is the part \<open>d\<close> of that URI before the final \<open>/\<close>, the files listed
  before the last one play no part in it, and it is the path the job call receives.
\<close>

theorem manual_trigger_uses_last_capture_file:
  "\<exists>d b args.
      s3_uri bucket_name obj = d @ CHR ''/'' # b \<and> CHR ''/'' \<notin> set b
    \<and> data_capture_path (map (s3_uri bucket_name) (objs @ [obj])) = Inr d
    \<and> data_capture_path (map (s3_uri bucket_name) (objs @ [obj]))
        = data_capture_path [s3_uri bucket_name obj]
    \<and> manual_trigger_args bucket_name (Inr \<lparr>Contents = Some (objs @ [obj])\<rparr>) = Inr args
    \<and> job_data_capture_path args = d"
proof -
  obtain d b where db: "s3_uri bucket_name obj = d @ CHR ''/'' # b" "CHR ''/'' \<notin> set b"
    and cut: "py_slice_to (s3_uri bucket_name obj) (rfind (s3_uri bucket_name obj) CHR ''/'') = d"
    using s3_uri_cut [of bucket_name obj] by blast
  have one: "data_capture_path [s3_uri bucket_name obj] = Inr d"
    using data_capture_path_snoc [of "[]" "s3_uri bucket_name obj"] cut by simp
  have all: "data_capture_path (map (s3_uri bucket_name) (objs @ [obj])) = Inr d"
    using data_capture_path_snoc [of "map (s3_uri bucket_name) objs" "s3_uri bucket_name obj"] cut
    by simp
  have "\<exists>args. manual_trigger_args bucket_name (Inr \<lparr>Contents = Some (objs @ [obj])\<rparr>) = Inr args
          \<and> job_data_capture_path args = d"
    using all by (simp add: manual_trigger_args_def capture_files_def)
  with db one all show ?thesis by auto
qed

theorem manual_trigger_uses_last_capture_file_witness:
  "\<exists>args.
      manual_trigger_args ''bucket''
        (Inr \<lparr>Contents = Some
           [\<lparr>Key = ''aim362/monitoring/datacapture/ep/AllTraffic/2019/12/03/10/06-39-123.jsonl''\<rparr>,
            \<lparr>Key = ''aim362/monitoring/datacapture/ep/AllTraffic/2019/12/03/11/02-11-456.jsonl''\<rparr>]\<rparr>)
        = Inr args
    \<and> job_data_capture_path args
        = ''s3://bucket/aim362/monitoring/datacapture/ep/AllTraffic/2019/12/03/11''
    \<and> \<not> prefix (job_data_capture_path args)
          (s3_uri ''bucket''
             \<lparr>Key = ''aim362/monitoring/datacapture/ep/AllTraffic/2019/12/03/10/06-39-123.jsonl''\<rparr>)"
proof -
  let ?o1 = "\<lparr>Key = ''aim362/monitoring/datacapture/ep/AllTraffic/2019/12/03/10/06-39-123.jsonl''\<rparr>"
  let ?o2 = "\<lparr>Key = ''aim362/monitoring/datacapture/ep/AllTraffic/2019/12/03/11/02-11-456.jsonl''\<rparr>"
  have path: "data_capture_path (map (s3_uri ''bucket'') ([?o1] @ [?o2]))
      = Inr ''s3://bucket/aim362/monitoring/datacapture/ep/AllTraffic/2019/12/03/11''"
    by code_simp
  have other: "\<not> prefix ''s3://bucket/aim362/monitoring/datacapture/ep/AllTraffic/2019/12/03/11''
      (s3_uri ''bucket'' ?o1)"
    by code_simp
  from manual_trigger_uses_last_capture_file [of "''bucket''" ?o2 "[?o1]"]
  obtain d args where
    "data_capture_path (map (s3_uri ''bucket'') ([?o1] @ [?o2])) = Inr d"
    "manual_trigger_args ''bucket'' (Inr \<lparr>Contents = Some ([?o1] @ [?o2])\<rparr>) = Inr args"
    "job_data_capture_path args = d"
    by blast
  with path other show ?thesis
    by auto
qed

subsection \<open>Artifact Locator\<close>

lemma sort_key_first_least:
  assumes "xs \<noteq> []"
  shows "sort_key f xs ! 0 \<in> set xs \<and> (\<forall>x \<in> set xs. f (sort_key f xs ! 0) \<le> f x)"
proof -
  let ?ys = "sort_key f xs"
  have ne: "?ys \<noteq> []" using assms by (metis length_sort list.size(3) length_0_conv)
  then obtain y ys where ys: "?ys = y # ys" by (cases ?ys) auto
  have "sorted (map f ?ys)" by (rule sorted_sort_key)
  then have "\<forall>x \<in> set ?ys. f y \<le> f x" using ys by auto
  moreover have "set ?ys = set xs" by simp
  moreover have "y \<in> set ?ys" using ys by simp
  ultimately show ?thesis using ys by auto
qed

lemma list_training_jobs_empty:
  assumes "{j \<in> set jobs. TrainingJobStatus j = st \<and> sublist s (TrainingJobName j)} = {}"
  shows "list_training_jobs jobs s ord st = []"
proof -
  have "filter (\<lambda>j. TrainingJobStatus j = st \<and> sublist s (TrainingJobName j)) jobs = []"
    using assms by (auto simp: filter_empty_conv)
  then show ?thesis
    by (cases ord) (simp_all add: list_training_jobs_def)
qed

lemma list_training_jobs_newest:
  assumes "{j \<in> set jobs. TrainingJobStatus j = st \<and> sublist s (TrainingJobName j)} \<noteq> {}"
  shows "list_training_jobs jobs s Descending st \<noteq> []
     \<and> list_training_jobs jobs s Descending st ! 0
          \<in> {j \<in> set jobs. TrainingJobStatus j = st \<and> sublist s (TrainingJobName j)}
     \<and> (\<forall>k \<in> {j \<in> set jobs. TrainingJobStatus j = st \<and> sublist s (TrainingJobName j)}.
           CreationTime k \<le> CreationTime (list_training_jobs jobs s Descending st ! 0))"
proof -
  let ?m = "filter (\<lambda>j. TrainingJobStatus j = st \<and> sublist s (TrainingJobName j)) jobs"
  let ?s = "sort_key (\<lambda>j. - CreationTime j) ?m"
  have set_m: "set ?m = {j \<in> set jobs. TrainingJobStatus j = st \<and> sublist s (TrainingJobName j)}"
    by auto
  have m_ne: "?m \<noteq> []" using assms set_m by (metis empty_set)
  have s_ne: "?s \<noteq> []" using m_ne by (metis length_sort length_0_conv)
  have resp: "list_training_jobs jobs s Descending st = take page_size ?s"
    by (simp add: list_training_jobs_def)
  have hd: "take page_size ?s ! 0 = ?s ! 0" by (simp add: page_size_def)
  have ne: "take page_size ?s \<noteq> []" using s_ne by (simp add: page_size_def)
  have least: "?s ! 0 \<in> set ?m \<and> (\<forall>x \<in> set ?m. - CreationTime (?s ! 0) \<le> - CreationTime x)"
    using sort_key_first_least [OF m_ne, of "\<lambda>j. - CreationTime j"] by simp
  show ?thesis
    unfolding resp hd set_m [symmetric] using ne least by auto
qed

lemma find_distinct_name:
  assumes "distinct (map TrainingJobName jobs)" "j \<in> set jobs"
  shows "find (\<lambda>x. TrainingJobName x = TrainingJobName j) jobs = Some j"
  using assms
proof (induction jobs)
  case Nil
  then show ?case by simp
next
  case (Cons a jobs)
  then show ?case by (auto simp: image_iff)
qed

text \<open>
  C1. Among the jobs the platform holds, the eligible ones are those with status
  \<open>Completed\<close> whose name contains the given string. When there is none, the locator raises
  ``Training job not found.'' (and so does the lookup of the artifact location); otherwise
  it returns the name of an eligible job whose creation time no eligible job exceeds, and,
  job names being distinct, the artifact location the cell prints is that job's.
\<close>

theorem artifact_locator_latest_completed:
  "({j \<in> set jobs. TrainingJobStatus j = Completed \<and> sublist base_job_name (TrainingJobName j)} = {}
      \<longrightarrow> get_latest_training_job_name jobs base_job_name = Inl (Exception ''Training job not found.'')
        \<and> model_path jobs base_job_name = Inl (Exception ''Training job not found.''))
   \<and> ({j \<in> set jobs. TrainingJobStatus j = Completed \<and> sublist base_job_name (TrainingJobName j)} \<noteq> {}
      \<longrightarrow> (\<exists>j \<in> {j \<in> set jobs. TrainingJobStatus j = Completed
                                \<and> sublist base_job_name (TrainingJobName j)}.
             (\<forall>k \<in> {j \<in> set jobs. TrainingJobStatus j = Completed
                                \<and> sublist base_job_name (TrainingJobName j)}.
                CreationTime k \<le> CreationTime j)
           \<and> get_latest_training_job_name jobs base_job_name = Inr (TrainingJobName j)
           \<and> (distinct (map TrainingJobName jobs)
                \<longrightarrow> model_path jobs base_job_name = Inr (S3ModelArtifacts j))))"
proof (intro conjI impI)
  assume e: "{j \<in> set jobs. TrainingJobStatus j = Completed \<and> sublist base_job_name (TrainingJobName j)} = {}"
  have r: "list_training_jobs jobs base_job_name Descending Completed = []"
    using e by (rule list_training_jobs_empty)
  show "get_latest_training_job_name jobs base_job_name = Inl (Exception ''Training job not found.'')"
    by (simp add: get_latest_training_job_name_def r)
  then show "model_path jobs base_job_name = Inl (Exception ''Training job not found.'')"
    by (simp add: model_path_def)
next
  let ?E = "{j \<in> set jobs. TrainingJobStatus j = Completed \<and> sublist base_job_name (TrainingJobName j)}"
  let ?r = "list_training_jobs jobs base_job_name Descending Completed"
  assume ne: "?E \<noteq> {}"
  have n: "?r \<noteq> []" "?r ! 0 \<in> ?E" "\<forall>k \<in> ?E. CreationTime k \<le> CreationTime (?r ! 0)"
    using list_training_jobs_newest [OF ne] by blast+
  have name: "get_latest_training_job_name jobs base_job_name = Inr (TrainingJobName (?r ! 0))"
    using n(1) by (simp add: get_latest_training_job_name_def)
  have path: "model_path jobs base_job_name = Inr (S3ModelArtifacts (?r ! 0))"
    if "distinct (map TrainingJobName jobs)"
  proof -
    have "?r ! 0 \<in> set jobs" using n(2) by simp
    then have "find (\<lambda>x. TrainingJobName x = TrainingJobName (?r ! 0)) jobs = Some (?r ! 0)"
      using that by (simp add: find_distinct_name)
    then show ?thesis
      by (simp add: model_path_def name get_training_job_s3_model_artifacts_def
          describe_training_job_def)
  qed
  show "\<exists>j \<in> ?E. (\<forall>k \<in> ?E. CreationTime k \<le> CreationTime j)
           \<and> get_latest_training_job_name jobs base_job_name = Inr (TrainingJobName j)
           \<and> (distinct (map TrainingJobName jobs)
                \<longrightarrow> model_path jobs base_job_name = Inr (S3ModelArtifacts j))"
    using n(2,3) name path by (intro bexI [of _ "?r ! 0"]) auto
qed


theorem artifact_locator_latest_completed_witness:
  "{j \<in> set [\<lparr>TrainingJobName = ''nw-traffic-classification-xgb-a'', TrainingJobStatus = Completed,
                 CreationTime = 100, S3ModelArtifacts = ''s3://b/a/model.tar.gz''\<rparr>,
               \<lparr>TrainingJobName = ''nw-traffic-classification-xgb-c'', TrainingJobStatus = Failed,
                 CreationTime = 300, S3ModelArtifacts = ''s3://b/c/model.tar.gz''\<rparr>,
               \<lparr>TrainingJobName = ''nw-traffic-classification-xgb-b'', TrainingJobStatus = Completed,
                 CreationTime = 200, S3ModelArtifacts = ''s3://b/b/model.tar.gz''\<rparr>,
               \<lparr>TrainingJobName = ''other-job'', TrainingJobStatus = Completed,
                 CreationTime = 400, S3ModelArtifacts = ''s3://b/o/model.tar.gz''\<rparr>].
      TrainingJobStatus j = Completed \<and> sublist ''nw-traffic-classification-xgb'' (TrainingJobName j)}
     \<noteq> {}
   \<and> get_latest_training_job_name
        [\<lparr>TrainingJobName = ''nw-traffic-classification-xgb-a'', TrainingJobStatus = Completed,
           CreationTime = 100, S3ModelArtifacts = ''s3://b/a/model.tar.gz''\<rparr>,
         \<lparr>TrainingJobName = ''nw-traffic-classification-xgb-c'', TrainingJobStatus = Failed,
           CreationTime = 300, S3ModelArtifacts = ''s3://b/c/model.tar.gz''\<rparr>,
         \<lparr>TrainingJobName = ''nw-traffic-classification-xgb-b'', TrainingJobStatus = Completed,
           CreationTime = 200, S3ModelArtifacts = ''s3://b/b/model.tar.gz''\<rparr>,
         \<lparr>TrainingJobName = ''other-job'', TrainingJobStatus = Completed,
           CreationTime = 400, S3ModelArtifacts = ''s3://b/o/model.tar.gz''\<rparr>]
        ''nw-traffic-classification-xgb''
      = Inr ''nw-traffic-classification-xgb-b''
   \<and> model_path
        [\<lparr>TrainingJobName = ''nw-traffic-classification-xgb-a'', TrainingJobStatus = Completed,
           CreationTime = 100, S3ModelArtifacts = ''s3://b/a/model.tar.gz''\<rparr>,
         \<lparr>TrainingJobName = ''nw-traffic-classification-xgb-c'', TrainingJobStatus = Failed,
           CreationTime = 300, S3ModelArtifacts = ''s3://b/c/model.tar.gz''\<rparr>,
         \<lparr>TrainingJobName = ''nw-traffic-classification-xgb-b'', TrainingJobStatus = Completed,
           CreationTime = 200, S3ModelArtifacts = ''s3://b/b/model.tar.gz''\<rparr>,
         \<lparr>TrainingJobName = ''other-job'', TrainingJobStatus = Completed,
           CreationTime = 400, S3ModelArtifacts = ''s3://b/o/model.tar.gz''\<rparr>]
        ''nw-traffic-classification-xgb''
      = Inr ''s3://b/b/model.tar.gz''
   \<and> {j \<in> set [\<lparr>TrainingJobName = ''nw-traffic-classification-xgb-c'', TrainingJobStatus = Failed,
                   CreationTime = 300, S3ModelArtifacts = ''s3://b/c/model.tar.gz''\<rparr>].
        TrainingJobStatus j = Completed \<and> sublist ''nw-traffic-classification-xgb'' (TrainingJobName j)}
     = {}
   \<and> get_latest_training_job_name
        [\<lparr>TrainingJobName = ''nw-traffic-classification-xgb-c'', TrainingJobStatus = Failed,
           CreationTime = 300, S3ModelArtifacts = ''s3://b/c/model.tar.gz''\<rparr>]
        ''nw-traffic-classification-xgb''
      = Inl (Exception ''Training job not found.'')"
  (is "?E \<noteq> {} \<and> ?name \<and> ?path \<and> ?F = {} \<and> ?none")
proof -
  let ?jobs =
    "[\<lparr>TrainingJobName = ''nw-traffic-classification-xgb-a'', TrainingJobStatus = Completed,
       CreationTime = 100, S3ModelArtifacts = ''s3://b/a/model.tar.gz''\<rparr>,
      \<lparr>TrainingJobName = ''nw-traffic-classification-xgb-c'', TrainingJobStatus = Failed,
       CreationTime = 300, S3ModelArtifacts = ''s3://b/c/model.tar.gz''\<rparr>,
      \<lparr>TrainingJobName = ''nw-traffic-classification-xgb-b'', TrainingJobStatus = Completed,
       CreationTime = 200, S3ModelArtifacts = ''s3://b/b/model.tar.gz''\<rparr>,
      \<lparr>TrainingJobName = ''other-job'', TrainingJobStatus = Completed,
       CreationTime = 400, S3ModelArtifacts = ''s3://b/o/model.tar.gz''\<rparr>]"
  let ?failed =
    "[\<lparr>TrainingJobName = ''nw-traffic-classification-xgb-c'', TrainingJobStatus = Failed,
       CreationTime = 300, S3ModelArtifacts = ''s3://b/c/model.tar.gz''\<rparr>]"
  have sub: "sublist ''nw-traffic-classification-xgb'' ''nw-traffic-classification-xgb-a''"
    by code_simp
  have "\<lparr>TrainingJobName = ''nw-traffic-classification-xgb-a'', TrainingJobStatus = Completed,
          CreationTime = 100, S3ModelArtifacts = ''s3://b/a/model.tar.gz''\<rparr> \<in> ?E"
    using sub by simp
  then have ne: "?E \<noteq> {}"
    by blast
  have em: "?F = {}"
    by auto
  have dist: "distinct (map TrainingJobName ?jobs)"
    by simp
  have name: ?name
    by code_simp
  have path: ?path
    by code_simp
  have none: ?none
    using artifact_locator_latest_completed [of ?failed "''nw-traffic-classification-xgb''"] em
    by blast
  show ?thesis
    using ne name path em none by blast
qed

subsection \<open>Inference request format\<close>

lemma test_values_class4_fields: "length (py_split CHR '','' test_values_class4) = 84"
  by code_simp

lemma test_values_class4_numeric: "list_all is_numeric (py_split CHR '','' test_values_class4)"
  by code_simp

lemma test_values_class4_line: "CHR 0x0A \<notin> set test_values_class4"
  by code_simp

lemma test_values_class7_fields: "length (py_split CHR '','' test_values_class7) = 84"
  by code_simp

lemma test_values_class7_numeric: "list_all is_numeric (py_split CHR '','' test_values_class7)"
  by code_simp

lemma test_values_class7_line: "CHR 0x0A \<notin> set test_values_class7"
  by code_simp

lemma py_split_field:
  "c \<notin> set v \<Longrightarrow> py_split c (v @ c # rest) = v # py_split c rest"
  by (induction v) auto

lemma artificial_values_fields:
  assumes "CHR '','' \<notin> set v"
  shows "py_split CHR '','' (artificial_values v) =
      [''22'', [], ''40.3'', ''0'', ''0'', ''0'', ''0'', ''0'', v, ''0.0'', ''0'', ''0'',
       ''0.0'', ''0.0'', ''0.0'', ''0.0368169318'', ''54322832.0'', ''0.0'', ''54322832'',
       ''54322832'', ''54322832'', ''54322832.0'', ''0.0'', ''54322832'', ''54322832'', ''0'',
       ''0.0'', ''0.0'', ''0'', ''0'', ''0'', ''0'', ''0'', ''0'', ''40'', ''0'',
       ''0.0368169318'', ''0.0'', ''0'', ''0'', ''0.0'', ''0.0'', ''0.0'', ''0'', ''0'', ''0'',
       ''0'', ''1'', ''0'', ''0'', ''0'', ''0.0'', ''0.0'', ''0.0'', ''0.0'', ''0.0'', ''0.0'',
       ''0.0'', ''0.0'', ''0.0'', ''0.0'', ''2'', ''0'', ''0'', ''0'', ''279'', ''-1'', ''0'',
       ''20'', ''0.0'', ''0.0'', ''0'', ''0'', ''0.0'', ''0.0'', ''0'', ''0'', ''23'', ''2'',
       ''2018'', ''4'', ''0'', ''1'', ''0'']"
  using assms by (simp add: artificial_values_def py_split_field)

lemma artificial_values_line:
  assumes "CHR 0x0A \<notin> set v"
  shows "CHR 0x0A \<notin> set (artificial_values v)"
  using assms by (simp add: artificial_values_def)

lemma artificial_literals_numeric:
  "is_numeric ''22''" "is_numeric ''40.3''" "is_numeric ''0''" "is_numeric ''0.0''"
  "is_numeric ''0.0368169318''" "is_numeric ''54322832.0''" "is_numeric ''54322832''"
  "is_numeric ''40''" "is_numeric ''1''" "is_numeric ''2''" "is_numeric ''279''"
  "is_numeric ''-1''" "is_numeric ''20''" "is_numeric ''23''" "is_numeric ''2018''"
  "is_numeric ''4''"
  by code_simp+

lemma empty_not_numeric: "\<not> is_numeric []"
  by code_simp

lemma artificial_values_numeric:
  assumes "CHR '','' \<notin> set v" "is_numeric v"
  shows "length (py_split CHR '','' (artificial_values v)) = 84
     \<and> py_split CHR '','' (artificial_values v) ! 1 = []
     \<and> py_split CHR '','' (artificial_values v) ! 8 = v
     \<and> list_all is_numeric (take 1 (py_split CHR '','' (artificial_values v)))
     \<and> list_all is_numeric (drop 2 (py_split CHR '','' (artificial_values v)))"
  using assms(2) by (simp add: artificial_values_fields [OF assms(1)] artificial_literals_numeric)


text \<open>
  C4. Every request the notebook sends is one line (it contains no newline) of exactly 84
  comma-separated fields, not 78. In the two test rows all 84 fields are decimal numbers. In
  a row of the violation generator, where the sampled value \<open>v\<close> is a decimal number without
  a comma or newline, the second field is empty, the ninth is \<open>v\<close>, and all fields but the
  second are decimal numbers. The decoded response to any request is a single integer.
\<close>

theorem inference_request_format:
  "length (py_split CHR '','' test_values_class4) = 84
   \<and> list_all is_numeric (py_split CHR '','' test_values_class4)
   \<and> CHR 0x0A \<notin> set test_values_class4
   \<and> length (py_split CHR '','' test_values_class7) = 84
   \<and> list_all is_numeric (py_split CHR '','' test_values_class7)
   \<and> CHR 0x0A \<notin> set test_values_class7
   \<and> (CHR '','' \<notin> set v \<and> CHR 0x0A \<notin> set v \<and> is_numeric v \<longrightarrow>
         length (py_split CHR '','' (artificial_values v)) = 84
       \<and> CHR 0x0A \<notin> set (artificial_values v)
       \<and> py_split CHR '','' (artificial_values v) ! 1 = []
       \<and> \<not> is_numeric (py_split CHR '','' (artificial_values v) ! 1)
       \<and> py_split CHR '','' (artificial_values v) ! 8 = v
       \<and> list_all is_numeric (take 1 (py_split CHR '','' (artificial_values v)))
       \<and> list_all is_numeric (drop 2 (py_split CHR '','' (artificial_values v))))
   \<and> (\<exists>c. pred_predict model request = JInt c)"
proof -
  have art: "length (py_split CHR '','' (artificial_values v)) = 84
       \<and> CHR 0x0A \<notin> set (artificial_values v)
       \<and> py_split CHR '','' (artificial_values v) ! 1 = []
       \<and> \<not> is_numeric (py_split CHR '','' (artificial_values v) ! 1)
       \<and> py_split CHR '','' (artificial_values v) ! 8 = v
       \<and> list_all is_numeric (take 1 (py_split CHR '','' (artificial_values v)))
       \<and> list_all is_numeric (drop 2 (py_split CHR '','' (artificial_values v)))"
    if "CHR '','' \<notin> set v" "CHR 0x0A \<notin> set v" "is_numeric v"
    using artificial_values_numeric [OF that(1,3)] artificial_values_line [OF that(2)] empty_not_numeric by simp
  have resp: "\<exists>c. pred_predict model request = JInt c"
    by (simp add: pred_predict_def invoke_endpoint_def output_fn_def)
  show ?thesis
    using test_values_class4_fields test_values_class4_numeric test_values_class4_line test_values_class7_fields test_values_class7_numeric test_values_class7_line art resp by blast
qed

theorem request_field_count_counterexample:
  "length (py_split CHR '','' test_values_class4) \<noteq> 78"
  by (simp add: test_values_class4_fields)

theorem inference_request_format_witness:
  "CHR '','' \<notin> set ''1.0234'' \<and> CHR 0x0A \<notin> set ''1.0234'' \<and> is_numeric ''1.0234''
   \<and> length (py_split CHR '','' (artificial_values ''1.0234'')) = 84
   \<and> py_split CHR '','' (artificial_values ''1.0234'') ! 1 = []
   \<and> py_split CHR '','' (artificial_values ''1.0234'') ! 8 = ''1.0234''"
proof -
  have h: "CHR '','' \<notin> set ''1.0234'' \<and> CHR 0x0A \<notin> set ''1.0234'' \<and> is_numeric ''1.0234''"
    by code_simp
  with inference_request_format [of "''1.0234''"] show ?thesis
    by blast
qed

subsection \<open>Inference Client\<close>

text \<open>
  C3. For every request and every trained model, the value \<^verbatim>\<open>pred.predict\<close> returns is the
  integer class the model gives to the decoded row: a scalar, never an array, and different
  from the container's default output \<open>[c.0]\<close>. In particular, when the model gives class 4
  to the first test row, the decoded output for that row is exactly \<open>4\<close> and not \<open>[4.0]\<close>.
\<close>

theorem inference_response_is_scalar:
  "pred_predict model data = JInt (model (py_split CHR '','' data))
   \<and> \<not> is_array (pred_predict model data)
   \<and> pred_predict model data \<noteq> default_output (model (py_split CHR '','' data))
   \<and> (model (py_split CHR '','' test_values_class4) = 4
        \<longrightarrow> pred_predict model test_values_class4 = JInt 4
          \<and> pred_predict model test_values_class4 \<noteq> JArr [JFloat 4])"
  by (simp add: pred_predict_def invoke_endpoint_def output_fn_def predict_fn_def input_fn_def
      is_array_def default_output_def)

theorem inference_response_is_scalar_witness:
  "(\<lambda>row. if length row = 84 then 4 else 0) (py_split CHR '','' test_values_class4) = (4 :: int)
   \<and> pred_predict (\<lambda>row. if length row = 84 then 4 else 0) test_values_class4 = JInt 4"
  using inference_response_is_scalar [of "\<lambda>row. if length row = 84 then 4 else 0"]
  by (simp add: test_values_class4_fields)

subsection \<open>Report Reader\<close>

lemma json_rows_objects:
  assumes "list_all is_object vs"
  shows "\<exists>df. json_rows vs = Inr df \<and> length df = length vs"
  using assms
proof (induction vs)
  case Nil
  then show ?case by simp
next
  case (Cons x xs)
  then obtain df where df: "json_rows xs = Inr df" "length df = length xs"
    by auto
  from Cons.prems obtain kvs where "x = JObj kvs"
    by (cases x) (simp_all add: is_object_def)
  with df show ?case by simp
qed

text \<open>
  C6. When the parser returns an object whose \<open>violations\<close> entry is a list of objects, the
  report reader returns a table with as many rows as the list has entries, whatever fields
  the entries carry; when the parser raises, the report reader raises the same error.
\<close>

theorem violations_table_rows:
  "(json_loads data = Inr (JObj kvs) \<and> map_of kvs ''violations'' = Some (JArr vs)
      \<and> list_all is_object vs
      \<longrightarrow> (\<exists>df. violations_df json_loads data = Inr df \<and> length df = length vs))
   \<and> (json_loads data = Inl e \<longrightarrow> violations_df json_loads data = Inl e)"
proof (intro conjI impI)
  assume a: "json_loads data = Inr (JObj kvs) \<and> map_of kvs ''violations'' = Some (JArr vs)
      \<and> list_all is_object vs"
  then obtain df where "json_rows vs = Inr df" "length df = length vs"
    using json_rows_objects by blast
  with a show "\<exists>df. violations_df json_loads data = Inr df \<and> length df = length vs"
    by (simp add: violations_df_def py_getitem_def json_normalize_def)
next
  assume "json_loads data = Inl e"
  then show "violations_df json_loads data = Inl e"
    by (simp add: violations_df_def)
qed

theorem violations_table_rows_witness:
  "(\<exists>df. violations_df
       (\<lambda>s. Inr (JObj [(''violations'',
          JArr [JObj [(''feature_name'', JStr ''Flow Duration''),
                      (''constraint_check_type'', JStr ''completeness_check'')],
                JObj [(''feature_name'', JStr ''Tot Fwd Pkts''),
                      (''constraint_check_type'', JStr ''data_type_check'')]])]))
       ''{}'' = Inr df \<and> length df = 2)
   \<and> violations_df (\<lambda>s. Inl JSONDecodeError) ''{'' = Inl JSONDecodeError"
proof -
  let ?vs = "[JObj [(''feature_name'', JStr ''Flow Duration''),
                    (''constraint_check_type'', JStr ''completeness_check'')],
              JObj [(''feature_name'', JStr ''Tot Fwd Pkts''),
                    (''constraint_check_type'', JStr ''data_type_check'')]]"
  let ?kvs = "[(''violations'', JArr ?vs)]"
  have ok: "list_all is_object ?vs" "map_of ?kvs ''violations'' = Some (JArr ?vs)"
    by (simp_all add: is_object_def)
  have len: "length ?vs = 2"
    by simp
  have "\<exists>df. violations_df (\<lambda>s. Inr (JObj ?kvs)) ''{}'' = Inr df \<and> length df = length ?vs"
    using violations_table_rows [of "\<lambda>s. Inr (JObj ?kvs)" "''{}''" ?kvs ?vs] ok by blast
  moreover have "violations_df (\<lambda>s. Inl JSONDecodeError) ''{'' = Inl JSONDecodeError"
    using violations_table_rows [of "\<lambda>s. Inl JSONDecodeError" "''{''" _ _ JSONDecodeError] by blast
  ultimately show ?thesis unfolding len by blast
qed

subsection \<open>Error propagation\<close>

lemma run_stmts_all_complete:
  assumes "list_all is_py cell" "\<forall>j < length cell. w (i + j) = None"
  shows "run_stmts w i cell = (map stmt_text cell, None, i + length cell)"
  using assms
proof (induction cell arbitrary: i)
  case Nil
  then show ?case by simp
next
  case (Cons st sts)
  from Cons.prems(1) obtain s where st: "st = Py s" and plain: "list_all is_py sts"
    by (cases st) auto
  have first: "w i = None" using Cons.prems(2) by force
  have "\<forall>j < length sts. w (Suc i + j) = None"
    using Cons.prems(2) by force
  from Cons.IH [OF plain this] show ?case
    by (simp add: st first)
qed

lemma run_stmts_first_failure:
  assumes "list_all is_py cell" "j < length cell" "\<forall>j' < j. w (i + j') = None" "w (i + j) = Some e"
  shows "run_stmts w i cell = (take (Suc j) (map stmt_text cell), Some e, i + Suc j)"
  using assms
proof (induction cell arbitrary: i j)
  case Nil
  then show ?case by simp
next
  case (Cons st sts)
  from Cons.prems(1) obtain s where st: "st = Py s" and plain: "list_all is_py sts"
    by (cases st) auto
  show ?case
  proof (cases j)
    case 0
    with Cons.prems(4) show ?thesis by (simp add: st)
  next
    case (Suc m)
    have first: "w i = None" using Cons.prems(3) Suc by force
    have m: "m < length sts" using Cons.prems(2) Suc by simp
    have before: "\<forall>j' < m. w (Suc i + j') = None"
      using Cons.prems(3) Suc by force
    have at: "w (Suc i + m) = Some e" using Cons.prems(4) Suc by simp
    from Cons.IH [OF plain m before at] show ?thesis
      by (simp add: st first Suc)
  qed
qed

lemma list_all_concat_replicate:
  "list_all P (concat (replicate n xs)) = (n = 0 \<or> list_all P xs)"
  by (induction n) auto

lemma plain_cells:
  "list_all is_py cell_session" "list_all is_py cell_locate_artifact"
  "list_all is_py cell_create_model" "list_all is_py cell_deploy" "list_all is_py cell_invoke"
  "list_all is_py cell_list_capture" "list_all is_py cell_print_capture_record"
  "list_all is_py (cell_copy_baseline_data n)" "list_all is_py cell_baseline_paths"
  "list_all is_py cell_create_monitor" "list_all is_py cell_suggest_baseline"
  "list_all is_py cell_show_statistics" "list_all is_py cell_show_constraints"
  "list_all is_py cell_generate_violations" "list_all is_py cell_upload_postprocessor"
  "list_all is_py cell_create_schedule" "list_all is_py cell_describe_schedule"
  "list_all is_py cell_delete_schedule" "list_all is_py cell_manual_trigger_paths"
  "list_all is_py cell_run_monitor_job" "list_all is_py cell_read_violations"
  "list_all is_py cell_print_monitoring_config" "list_all is_py cell_delete_endpoint"
  by (simp_all add: list_all_concat_replicate cell_session_def cell_locate_artifact_def
      cell_create_model_def cell_deploy_def cell_invoke_def cell_list_capture_def
      cell_print_capture_record_def cell_copy_baseline_data_def cell_baseline_paths_def
      cell_create_monitor_def cell_suggest_baseline_def cell_show_statistics_def
      cell_show_constraints_def cell_generate_violations_def cell_upload_postprocessor_def
      cell_create_schedule_def cell_describe_schedule_def cell_delete_schedule_def
      cell_manual_trigger_paths_def cell_run_monitor_job_def cell_read_violations_def
      cell_print_monitoring_config_def cell_delete_endpoint_def)

lemma other_cells:
  "\<not> list_all is_py cell_show_entrypoint" "\<not> list_all is_py cell_copy_capture_example"
  "\<not> list_all is_py cell_show_postprocessor" "\<not> list_all is_py cell_list_reports"
  "\<not> list_all is_py cell_copy_reports" "\<not> list_all is_py cell_copy_baseline_files"
  by (simp_all add: cell_show_entrypoint_def cell_copy_capture_example_def
      cell_show_postprocessor_def cell_list_reports_def cell_copy_reports_def
      cell_copy_baseline_files_def)

lemma notebook_handlers:
  "filter (\<lambda>c. \<not> list_all is_py c) (notebook n) =
     [cell_show_entrypoint, cell_copy_capture_example, cell_show_postprocessor,
      cell_list_reports, cell_copy_reports, cell_copy_baseline_files]"
  by (simp add: notebook_def plain_cells other_cells)

lemma shell_cells_go_on:
  "run_cell w cell_show_entrypoint = (map stmt_text cell_show_entrypoint, None)"
  "run_cell w cell_copy_capture_example = (map stmt_text cell_copy_capture_example, None)"
  "run_cell w cell_show_postprocessor = (map stmt_text cell_show_postprocessor, None)"
  "run_cell w cell_copy_reports = (map stmt_text cell_copy_reports, None)"
  "run_cell w cell_copy_baseline_files = (map stmt_text cell_copy_baseline_files, None)"
  by (simp_all add: run_cell_def cell_show_entrypoint_def cell_copy_capture_example_def
      cell_show_postprocessor_def cell_copy_reports_def cell_copy_baseline_files_def)

lemma reports_cell_recovers:
  assumes "w 0 = None" "w 1 = None" "w 2 = None" "w 3 = Some e" "w 4 = None"
  shows "run_cell w cell_list_reports =
     ([''s3_client = boto3.Session().client(`s3`)'',
       ''monitoring_reports_prefix = `{}/monitoring/reports/{}`.format(p...'',
       ''result = s3_client.list_objects(Bucket=bucket_name, Prefix=moni...'',
       ''monitoring_reports = [`s3://{0}/{1}`.format(bucket_name, captur...'',
       ''print(`No monitoring reports found.`)''], None)"
  using assms by (simp add: run_cell_def cell_list_reports_def numeral_eq_Suc)

lemma reports_cell_listing_fails:
  assumes "w 0 = None" "w 1 = None" "w 2 = Some e"
  shows "run_cell w cell_list_reports =
     ([''s3_client = boto3.Session().client(`s3`)'',
       ''monitoring_reports_prefix = `{}/monitoring/reports/{}`.format(p...'',
       ''result = s3_client.list_objects(Bucket=bucket_name, Prefix=moni...''], Some e)"
  using assms by (simp add: run_cell_def cell_list_reports_def numeral_eq_Suc)

text \<open>
  C7. The cells that hold a shell line or a handler are six: five made of shell lines and the
  cell that lists the monitoring reports. In every other cell of the notebook, when all
  statements complete they have run once each, in order; when a statement raises, the cell
  ends with that exception, the statements before it have run once and no statement runs
  after it (no retry, no cleanup). A cell of shell lines runs all its lines whatever their
  commands return. In the report-listing cell a failure of the listing call ends the cell,
  but an exception raised inside the \<^verbatim>\<open>try\<close> is caught: the handler prints
  ``No monitoring reports found.'' and the cell ends normally. On the values: a failed
  platform call is the error of the capture listing, of the manual trigger and of the report
  listing; a parse error is the error of the report reader; the locator's and the lookup's
  errors are the error of the artifact lookup; a failed copy ends the copy loop; and listing
  the capture prefix before any capture file exists raises \<open>TypeError\<close>, to be run again by
  the operator.
\<close>

theorem failures_abort_except_reports_listing:
  "filter (\<lambda>c. \<not> list_all is_py c) (notebook n) =
     [cell_show_entrypoint, cell_copy_capture_example, cell_show_postprocessor,
      cell_list_reports, cell_copy_reports, cell_copy_baseline_files]
   \<and> (list_all is_py cell \<and> (\<forall>j < length cell. w j = None) \<longrightarrow>
         run_cell w cell = (map stmt_text cell, None))
   \<and> (list_all is_py cell \<and> j < length cell \<and> (\<forall>j' < j. w j' = None) \<and> w j = Some e \<longrightarrow>
         run_cell w cell = (take (Suc j) (map stmt_text cell), Some e))
   \<and> run_cell w cell_show_entrypoint = (map stmt_text cell_show_entrypoint, None)
   \<and> run_cell w cell_copy_capture_example = (map stmt_text cell_copy_capture_example, None)
   \<and> run_cell w cell_show_postprocessor = (map stmt_text cell_show_postprocessor, None)
   \<and> run_cell w cell_copy_reports = (map stmt_text cell_copy_reports, None)
   \<and> run_cell w cell_copy_baseline_files = (map stmt_text cell_copy_baseline_files, None)
   \<and> (w 0 = None \<and> w 1 = None \<and> w 2 = Some e \<longrightarrow>
         run_cell w cell_list_reports =
           ([''s3_client = boto3.Session().client(`s3`)'',
             ''monitoring_reports_prefix = `{}/monitoring/reports/{}`.format(p...'',
             ''result = s3_client.list_objects(Bucket=bucket_name, Prefix=moni...''], Some e))
   \<and> (w 0 = None \<and> w 1 = None \<and> w 2 = None \<and> w 3 = Some e \<and> w 4 = None \<longrightarrow>
         run_cell w cell_list_reports =
           ([''s3_client = boto3.Session().client(`s3`)'',
             ''monitoring_reports_prefix = `{}/monitoring/reports/{}`.format(p...'',
             ''result = s3_client.list_objects(Bucket=bucket_name, Prefix=moni...'',
             ''monitoring_reports = [`s3://{0}/{1}`.format(bucket_name, captur...'',
             ''print(`No monitoring reports found.`)''], None))
   \<and> capture_files bucket_name (Inl e) = Inl e
   \<and> capture_files bucket_name (Inr \<lparr>Contents = None\<rparr>) = Inl TypeError
   \<and> manual_trigger_args bucket_name (Inl e) = Inl e
   \<and> manual_trigger_args bucket_name (Inr \<lparr>Contents = None\<rparr>) = Inl TypeError
   \<and> monitoring_reports bucket_name (Inl e) = Inl e
   \<and> monitoring_reports bucket_name (Inr \<lparr>Contents = None\<rparr>)
       = Inr ([''No monitoring reports found.''], None)
   \<and> violations_df (\<lambda>s. Inl e) data = Inl e
   \<and> model_path [] base_job_name = Inl (Exception ''Training job not found.'')
   \<and> get_training_job_s3_model_artifacts [] job_name
       = Inl (ClientError ''Requested resource not found.'')
   \<and> copy_loop [] (key # keys) = Inl (ClientError ''Not Found'')"
proof -
  have complete: "run_cell w cell = (map stmt_text cell, None)"
    if "list_all is_py cell" "\<forall>j < length cell. w j = None"
    using run_stmts_all_complete [of cell w 0] that by (simp add: run_cell_def)
  have abort: "run_cell w cell = (take (Suc j) (map stmt_text cell), Some e)"
    if "list_all is_py cell" "j < length cell" "\<forall>j' < j. w j' = None" "w j = Some e"
    using run_stmts_first_failure [of cell j w 0 e] that by (simp add: run_cell_def)
  have detail: "capture_files bucket_name (Inl e) = Inl e
   \<and> capture_files bucket_name (Inr \<lparr>Contents = None\<rparr>) = Inl TypeError
   \<and> manual_trigger_args bucket_name (Inl e) = Inl e
   \<and> manual_trigger_args bucket_name (Inr \<lparr>Contents = None\<rparr>) = Inl TypeError
   \<and> monitoring_reports bucket_name (Inl e) = Inl e
   \<and> monitoring_reports bucket_name (Inr \<lparr>Contents = None\<rparr>)
       = Inr ([''No monitoring reports found.''], None)
   \<and> violations_df (\<lambda>s. Inl e) data = Inl e
   \<and> model_path [] base_job_name = Inl (Exception ''Training job not found.'')
   \<and> get_training_job_s3_model_artifacts [] job_name
       = Inl (ClientError ''Requested resource not found.'')
   \<and> copy_loop [] (key # keys) = Inl (ClientError ''Not Found'')"
    by (simp add: capture_files_def monitoring_reports_def manual_trigger_args_def
        violations_df_def model_path_def get_latest_training_job_name_def list_training_jobs_def
        get_training_job_s3_model_artifacts_def describe_training_job_def bucket_copy_def)
  show ?thesis
    using notebook_handlers [of n] complete abort shell_cells_go_on [of w]
      reports_cell_listing_fails [of w e] reports_cell_recovers [of w e] detail
    by blast
qed

theorem failures_abort_except_reports_listing_witness:
  "list_all is_py cell_invoke
   \<and> run_cell (\<lambda>k. if k = 6 then Some (ClientError ''ModelError'') else None) cell_invoke
       = (take 7 (map stmt_text cell_invoke), Some (ClientError ''ModelError''))
   \<and> length (fst (run_cell (\<lambda>k. if k = 6 then Some (ClientError ''ModelError'') else None)
                     cell_invoke)) = 7
   \<and> length cell_invoke = 11
   \<and> run_cell (\<lambda>k. if k = 0 then Some (ClientError ''ValidationException'') else None)
        cell_delete_endpoint
       = ([''pred.delete_endpoint()''], Some (ClientError ''ValidationException''))
   \<and> run_cell (\<lambda>k. if k = 3 then Some TypeError else None) cell_list_reports
       = ([''s3_client = boto3.Session().client(`s3`)'',
           ''monitoring_reports_prefix = `{}/monitoring/reports/{}`.format(p...'',
           ''result = s3_client.list_objects(Bucket=bucket_name, Prefix=moni...'',
           ''monitoring_reports = [`s3://{0}/{1}`.format(bucket_name, captur...'',
           ''print(`No monitoring reports found.`)''], None)"
proof -
  let ?w = "\<lambda>k :: nat. if k = 6 then Some (ClientError ''ModelError'') else None"
  let ?v = "\<lambda>k :: nat. if k = 0 then Some (ClientError ''ValidationException'') else None"
  let ?u = "\<lambda>k :: nat. if k = 3 then Some TypeError else None"
  have plain: "list_all is_py cell_invoke" "list_all is_py cell_delete_endpoint"
    by (simp_all add: cell_invoke_def cell_delete_endpoint_def)
  have len: "length cell_invoke = 11" "length cell_delete_endpoint = 2"
    by (simp_all add: cell_invoke_def cell_delete_endpoint_def)
  have ha: "list_all is_py cell_invoke \<and> 6 < length cell_invoke \<and> (\<forall>j' < 6. ?w j' = None)
      \<and> ?w 6 = Some (ClientError ''ModelError'')"
    using plain(1) len(1) by simp
  have a: "run_cell ?w cell_invoke = (take (Suc 6) (map stmt_text cell_invoke), Some (ClientError ''ModelError''))"
    using failures_abort_except_reports_listing
      [where cell = cell_invoke and j = 6 and w = ?w and e = "ClientError ''ModelError''"] ha
    by blast
  have hb: "list_all is_py cell_delete_endpoint \<and> 0 < length cell_delete_endpoint
      \<and> (\<forall>j' < 0. ?v j' = None) \<and> ?v 0 = Some (ClientError ''ValidationException'')"
    using plain(2) len(2) by simp
  have b: "run_cell ?v cell_delete_endpoint
      = (take (Suc 0) (map stmt_text cell_delete_endpoint), Some (ClientError ''ValidationException''))"
    using failures_abort_except_reports_listing
      [where cell = cell_delete_endpoint and j = 0 and w = ?v
        and e = "ClientError ''ValidationException''"] hb
    by blast
  have hc: "?u 0 = None \<and> ?u 1 = None \<and> ?u 2 = None \<and> ?u 3 = Some TypeError \<and> ?u 4 = None"
    by simp
  have c: "run_cell ?u cell_list_reports
       = ([''s3_client = boto3.Session().client(`s3`)'',
           ''monitoring_reports_prefix = `{}/monitoring/reports/{}`.format(p...'',
           ''result = s3_client.list_objects(Bucket=bucket_name, Prefix=moni...'',
           ''monitoring_reports = [`s3://{0}/{1}`.format(bucket_name, captur...'',
           ''print(`No monitoring reports found.`)''], None)"
    using failures_abort_except_reports_listing [where w = ?u and e = TypeError] hc
    by blast
  have b': "take (Suc 0) (map stmt_text cell_delete_endpoint) = [''pred.delete_endpoint()'']"
    by (simp add: cell_delete_endpoint_def)
  have a': "length (take (Suc 6) (map stmt_text cell_invoke)) = 7" "Suc 6 = 7"
    using len(1) by simp_all
  show ?thesis
    using plain(1) a a' b b' c len(1) by simp
qed

theorem reports_listing_recovers_counterexample:
  "capture_files ''bucket'' (Inr \<lparr>Contents = None\<rparr>) = Inl TypeError
   \<and> monitoring_reports ''bucket'' (Inr \<lparr>Contents = None\<rparr>)
       = Inr ([''No monitoring reports found.''], None)
   \<and> \<not> isl (monitoring_reports ''bucket'' (Inr \<lparr>Contents = None\<rparr>))"
  by (simp add: capture_files_def monitoring_reports_def)

subsection \<open>Baseline data preparation\<close>
























end
